theory Spec2Isabelle
  imports Complex_Main "HOL-Library.Sublist"
begin

section \<open>Tensors\<close>

text \<open>
  A tensor is its shape and its elements in row-major (logical) order. The element type
  is left abstract: the layers only ever multiply elements.
\<close>

record 'a tensor =
  shape :: "nat list"
  data :: "'a list"

definition numel :: "('a, 'z) tensor_scheme \<Rightarrow> nat" where
  "numel t = prod_list (shape t)"

definition wf_tensor :: "('a, 'z) tensor_scheme \<Rightarrow> bool" where
  "wf_tensor t = (length (data t) = prod_list (shape t))"

datatype error = ValueError string | RuntimeError | IndexError | AssertionError

subsection \<open>Rendering of numbers and tuples in messages\<close>

definition digit_char :: "nat \<Rightarrow> char" where
  "digit_char d = ''0123456789'' ! d"

function str_nat :: "nat \<Rightarrow> string" where
  "str_nat n = (if n < 10 then [digit_char n] else str_nat (n div 10) @ [digit_char (n mod 10)])"
  by pat_completeness auto
termination
  by (relation "measure (\<lambda>n. n)") auto

declare str_nat.simps [simp del]

fun join_comma :: "string list \<Rightarrow> string" where
  "join_comma [] = []"
| "join_comma [x] = x"
| "join_comma (x # y # ys) = x @ '', '' @ join_comma (y # ys)"

text \<open>Python's \<open>str\<close> of a tuple of integers: \<open>()\<close>, \<open>(6,)\<close>, \<open>(3, 2)\<close>.\<close>

definition str_tuple :: "nat list \<Rightarrow> string" where
  "str_tuple xs =
     (case xs of
        [] \<Rightarrow> ''()''
      | [x] \<Rightarrow> ''('' @ str_nat x @ '',)''
      | _ \<Rightarrow> ''('' @ join_comma (map str_nat xs) @ '')'')"

subsection \<open>The tensor operations the layers call\<close>

text \<open>
  \<open>t.reshape(*pre, -1, *post)\<close>: the framework multiplies the given sizes, accepts when
  the element count equals that product or is a multiple of a positive product, refuses
  to infer the free size when the product is zero, and keeps the elements in order.
\<close>

definition reshape_infer :: "nat list \<Rightarrow> nat list \<Rightarrow> 'a tensor \<Rightarrow> error + 'a tensor" where
  "reshape_infer pre post t =
     (let newsize = prod_list pre * prod_list post; n = numel t in
      if n = newsize \<or> (0 < newsize \<and> n mod newsize = 0)
      then (if newsize = 0 then Inl RuntimeError
            else Inr (t\<lparr>shape := pre @ [n div newsize] @ post\<rparr>))
      else Inl RuntimeError)"

text \<open>\<open>t.unsqueeze(-2)\<close>: a new axis of size 1 before the last one.\<close>

definition unsqueeze_m2 :: "'a tensor \<Rightarrow> error + 'a tensor" where
  "unsqueeze_m2 t =
     (if shape t = [] then Inl IndexError
      else Inr (t\<lparr>shape := butlast (shape t) @ [1, last (shape t)]\<rparr>))"

text \<open>Broadcasting multiplication \<open>a * b\<close>: shapes are aligned at the right.\<close>

definition pad :: "nat \<Rightarrow> nat list \<Rightarrow> nat list" where
  "pad r s = replicate (r - length s) 1 @ s"

definition broadcast_dim :: "nat \<Rightarrow> nat \<Rightarrow> nat option" where
  "broadcast_dim a b =
     (if a = b then Some a else if a = 1 then Some b else if b = 1 then Some a else None)"

fun broadcast_shape :: "nat list \<Rightarrow> nat list \<Rightarrow> nat list option" where
  "broadcast_shape [] [] = Some []"
| "broadcast_shape (a # sa) (b # sb) =
     (case broadcast_dim a b of
        None \<Rightarrow> None
      | Some d \<Rightarrow> (case broadcast_shape sa sb of None \<Rightarrow> None | Some ds \<Rightarrow> Some (d # ds)))"
| "broadcast_shape _ _ = None"

definition block :: "nat \<Rightarrow> nat \<Rightarrow> 'a list \<Rightarrow> 'a list" where
  "block m i xs = take m (drop (i * m) xs)"

fun bmul_data :: "nat list \<Rightarrow> nat list \<Rightarrow> 'a::times list \<Rightarrow> 'a list \<Rightarrow> 'a list" where
  "bmul_data (a # sa) (b # sb) xs ys =
     concat (map (\<lambda>i. bmul_data sa sb
                         (block (prod_list sa) (if a = 1 then 0 else i) xs)
                         (block (prod_list sb) (if b = 1 then 0 else i) ys))
                 [0..<(if a = 1 then b else a)])"
| "bmul_data _ _ xs ys = map2 (*) xs ys"

definition tensor_mul :: "'a::times tensor \<Rightarrow> 'a tensor \<Rightarrow> error + 'a tensor" where
  "tensor_mul a b =
     (let r = max (length (shape a)) (length (shape b));
          sa = pad r (shape a); sb = pad r (shape b)
      in case broadcast_shape sa sb of
           None \<Rightarrow> Inl RuntimeError
         | Some s \<Rightarrow> Inr \<lparr>shape = s, data = bmul_data sa sb (data a) (data b)\<rparr>)"

text \<open>
  \<open>torch.cat([a, b], dim=-1)\<close>: row by row, the row of \<open>a\<close> then the row of \<open>b\<close>. A
  tensor of shape \<open>(0,)\<close> is skipped, a tensor without axes is refused.
\<close>

definition cat_rows :: "nat \<Rightarrow> nat \<Rightarrow> nat \<Rightarrow> 'a list \<Rightarrow> 'a list \<Rightarrow> 'a list" where
  "cat_rows p m n xs ys = concat (map (\<lambda>h. block m h xs @ block n h ys) [0..<p])"

definition cat_last :: "'a tensor \<Rightarrow> 'a tensor \<Rightarrow> error + 'a tensor" where
  "cat_last a b =
     (if shape a = [] \<or> shape b = [] then Inl RuntimeError
      else if shape a = [0] then Inr b
      else if shape b = [0] then Inr a
      else if butlast (shape a) \<noteq> butlast (shape b) then Inl RuntimeError
      else Inr \<lparr>shape = butlast (shape a) @ [last (shape a) + last (shape b)],
                data = cat_rows (prod_list (butlast (shape a))) (last (shape a)) (last (shape b))
                         (data a) (data b)\<rparr>)"

section \<open>The layers\<close>

record 'a CplxMultichannelGainLayer =
  gain :: "'a tensor \<Rightarrow> 'a tensor"
  flatten :: bool

record ('a, 'b) CplxProjectionGainLayer = "'a CplxMultichannelGainLayer" +
  projection :: "'a tensor \<times> 'a tensor \<Rightarrow> 'b"

definition CplxMultichannelGainLayer_init ::
  "('a tensor \<Rightarrow> 'a tensor) \<Rightarrow> bool \<Rightarrow> 'a CplxMultichannelGainLayer" where
  "CplxMultichannelGainLayer_init g f = \<lparr>gain = g, flatten = f\<rparr>"

text \<open>\<open>*head, n_features = re.shape\<close>\<close>

definition unpack_shape :: "nat list \<Rightarrow> error + (nat list \<times> nat)" where
  "unpack_shape s =
     (if s = [] then Inl (ValueError ''not enough values to unpack (expected at least 1, got 0)'')
      else Inr (butlast s, last s))"

definition gain_message :: "nat list \<Rightarrow> nat \<Rightarrow> string" where
  "gain_message tail n_features =
     ''`gain` '' @ str_tuple tail @ '' is incompatible with the input complex tensor ''
       @ str_nat n_features @ ''.''"

text \<open>
  \<open>CplxMultichannelGainLayer.forward\<close>. The modulus \<open>cplx_modulus\<close> lives in another
  module and is a parameter.
\<close>

definition CplxMultichannelGainLayer_forward ::
  "('a tensor \<times> 'a tensor \<Rightarrow> 'a tensor) \<Rightarrow> ('a::times, 'z) CplxMultichannelGainLayer_scheme
     \<Rightarrow> 'a tensor \<times> 'a tensor \<Rightarrow> error + ('a tensor \<times> 'a tensor)" where
  "CplxMultichannelGainLayer_forward cplx_modulus self input =
     (case input of (re, im) \<Rightarrow>
       (let g = gain self (cplx_modulus input) in
         (case unpack_shape (shape re) of
            Inl e \<Rightarrow> Inl e
          | Inr (head, n_features) \<Rightarrow>
             (case reshape_infer head [n_features] g of
                Inl e \<Rightarrow>
                  (case e of
                     RuntimeError \<Rightarrow>
                       Inl (ValueError (gain_message (drop (length head) (shape g)) n_features))
                   | _ \<Rightarrow> Inl e)
              | Inr g' \<Rightarrow>
                 (case unsqueeze_m2 re of Inl e \<Rightarrow> Inl e | Inr re1 \<Rightarrow>
                 (case unsqueeze_m2 im of Inl e \<Rightarrow> Inl e | Inr im1 \<Rightarrow>
                 (case tensor_mul g' re1 of Inl e \<Rightarrow> Inl e | Inr re2 \<Rightarrow>
                 (case tensor_mul g' im1 of Inl e \<Rightarrow> Inl e | Inr im2 \<Rightarrow>
                   (if flatten self then
                     (case reshape_infer head [] re2 of Inl e \<Rightarrow> Inl e | Inr re3 \<Rightarrow>
                     (case reshape_infer head [] im2 of Inl e \<Rightarrow> Inl e | Inr im3 \<Rightarrow>
                       Inr (re3, im3)))
                    else Inr (re2, im2))))))))))"

text \<open>
  \<open>CplxProjectionGainLayer.__init__\<close>. The capability check \<open>is_cplx_to_cplx\<close> lives
  in another module and is a parameter.
\<close>

definition CplxProjectionGainLayer_init ::
  "(('a tensor \<times> 'a tensor \<Rightarrow> 'b) \<Rightarrow> bool) \<Rightarrow> ('a tensor \<Rightarrow> 'a tensor)
     \<Rightarrow> ('a tensor \<times> 'a tensor \<Rightarrow> 'b) \<Rightarrow> error + ('a, 'b) CplxProjectionGainLayer" where
  "CplxProjectionGainLayer_init is_cplx_to_cplx g p =
     (if is_cplx_to_cplx p then Inr \<lparr>gain = g, flatten = True, projection = p\<rparr>
      else Inl AssertionError)"

definition CplxProjectionGainLayer_forward ::
  "('a tensor \<times> 'a tensor \<Rightarrow> 'a tensor) \<Rightarrow> ('a::times, 'b, 'z) CplxProjectionGainLayer_scheme
     \<Rightarrow> 'a tensor \<times> 'a tensor \<Rightarrow> error + 'b" where
  "CplxProjectionGainLayer_forward cplx_modulus self input =
     (case input of (re_z, im_z) \<Rightarrow>
       (case CplxMultichannelGainLayer_forward cplx_modulus self input of
          Inl e \<Rightarrow> Inl e
        | Inr (re_g, im_g) \<Rightarrow>
           (case cat_last re_g re_z of Inl e \<Rightarrow> Inl e | Inr re \<Rightarrow>
           (case cat_last im_g im_z of Inl e \<Rightarrow> Inl e | Inr im \<Rightarrow>
             Inr (projection self (re, im))))))"

subsection \<open>The calls as steps on the layer object\<close>

text \<open>
  The same two methods as steps on the layer object. A step takes the object and returns
  the object after it, together with a value or an error: \<open>attr\<close> reads an attribute of
  \<open>self\<close>, \<open>evaluate\<close> runs an operation on local values, \<open>and_then\<close> runs the next
  statement unless the first has raised. An assignment to an attribute would be a step
  that returns a changed object; the bodies of \<open>forward\<close> have none, their assignments
  bind the local names \<open>gain\<close>, \<open>re\<close> and \<open>im\<close>.
\<close>

type_synonym ('s, 'r) call = "'s \<Rightarrow> (error + 'r) \<times> 's"

definition returns :: "'r \<Rightarrow> ('s, 'r) call" where
  "returns r s = (Inr r, s)"

definition attr :: "('s \<Rightarrow> 'v) \<Rightarrow> ('s, 'v) call" where
  "attr f s = (Inr (f s), s)"

definition evaluate :: "error + 'r \<Rightarrow> ('s, 'r) call" where
  "evaluate x s = (x, s)"

definition and_then :: "('s, 'a) call \<Rightarrow> ('a \<Rightarrow> ('s, 'b) call) \<Rightarrow> ('s, 'b) call" where
  "and_then c f s = (case c s of (Inl e, s') \<Rightarrow> (Inl e, s') | (Inr a, s') \<Rightarrow> f a s')"

text \<open>The \<open>try\<close> block around \<open>gain.reshape(*head, -1, n_features)\<close>.\<close>

definition reshape_gain :: "nat list \<Rightarrow> nat \<Rightarrow> 'a tensor \<Rightarrow> error + 'a tensor" where
  "reshape_gain head n_features g =
     (case reshape_infer head [n_features] g of
        Inl e \<Rightarrow>
          (case e of
             RuntimeError \<Rightarrow>
               Inl (ValueError (gain_message (drop (length head) (shape g)) n_features))
           | _ \<Rightarrow> Inl e)
      | Inr g' \<Rightarrow> Inr g')"

definition CplxMultichannelGainLayer_forward_call ::
  "('a tensor \<times> 'a tensor \<Rightarrow> 'a tensor) \<Rightarrow> 'a tensor \<times> 'a tensor
     \<Rightarrow> (('a::times, 'z) CplxMultichannelGainLayer_scheme, 'a tensor \<times> 'a tensor) call" where
  "CplxMultichannelGainLayer_forward_call cplx_modulus input =
     (case input of (re, im) \<Rightarrow>
       and_then (attr gain) (\<lambda>self_gain.
       and_then (returns (self_gain (cplx_modulus input))) (\<lambda>g.
       and_then (evaluate (unpack_shape (shape re))) (\<lambda>(head, n_features).
       and_then (evaluate (reshape_gain head n_features g)) (\<lambda>g'.
       and_then (evaluate (unsqueeze_m2 re)) (\<lambda>re1.
       and_then (evaluate (unsqueeze_m2 im)) (\<lambda>im1.
       and_then (evaluate (tensor_mul g' re1)) (\<lambda>re2.
       and_then (evaluate (tensor_mul g' im1)) (\<lambda>im2.
       and_then (attr flatten) (\<lambda>self_flatten.
         if self_flatten then
           and_then (evaluate (reshape_infer head [] re2)) (\<lambda>re3.
           and_then (evaluate (reshape_infer head [] im2)) (\<lambda>im3.
           returns (re3, im3)))
         else returns (re2, im2)))))))))))"

definition CplxProjectionGainLayer_forward_call ::
  "('a tensor \<times> 'a tensor \<Rightarrow> 'a tensor) \<Rightarrow> 'a tensor \<times> 'a tensor
     \<Rightarrow> (('a::times, 'b, 'z) CplxProjectionGainLayer_scheme, 'b) call" where
  "CplxProjectionGainLayer_forward_call cplx_modulus input =
     (case input of (re_z, im_z) \<Rightarrow>
       and_then (CplxMultichannelGainLayer_forward_call cplx_modulus input) (\<lambda>(re_g, im_g).
       and_then (evaluate (cat_last re_g re_z)) (\<lambda>re.
       and_then (evaluate (cat_last im_g im_z)) (\<lambda>im.
       and_then (attr projection) (\<lambda>self_projection.
       returns (self_projection (re, im)))))))"

section \<open>Vocabulary of the statements\<close>

text \<open>
  The elements of the products \<open>gain * re\<close> for a gain of shape \<open>(*hs, c, n)\<close> and a part of
  shape \<open>(*hs, 1, n)\<close>.
\<close>

definition gained :: "nat list \<Rightarrow> nat \<Rightarrow> nat \<Rightarrow> 'a::times tensor \<Rightarrow> 'a tensor \<Rightarrow> 'a list" where
  "gained hs c n g x = bmul_data (hs @ [c, n]) (hs @ [Suc 0, n]) (data g) (data x)"


text \<open>Collaborators of the examples: a tensor of ones and a gain that ignores its input.\<close>

definition ones :: "nat list \<Rightarrow> 'a::one tensor" where
  "ones s = \<lparr>shape = s, data = replicate (prod_list s) 1\<rparr>"

definition const_gain :: "'a tensor \<Rightarrow> 'a tensor \<Rightarrow> 'a tensor" where
  "const_gain t x = t"

text \<open>
  Modelled from the spec: \<open>cplx_modulus\<close> of the module \<open>cplx\<close>, which is not among the
  sources; the spec gives it as \<open>sqrt(real\<^sup>2 + imag\<^sup>2)\<close> elementwise. It is used in the
  examples only; the general statements hold for every modulus.
\<close>

definition cplx_modulus :: "real tensor \<times> real tensor \<Rightarrow> real tensor" where
  "cplx_modulus input =
     (case input of (re, im) \<Rightarrow>
        \<lparr>shape = shape re, data = map2 (\<lambda>x y. sqrt (x\<^sup>2 + y\<^sup>2)) (data re) (data im)\<rparr>)"

section \<open>Lists cut into rows\<close>

lemma block_length: "Suc i * m \<le> length xs \<Longrightarrow> length (block m i xs) = m"
  by (simp add: block_def)

lemma block_nth: "j < m \<Longrightarrow> Suc i * m \<le> length xs \<Longrightarrow> block m i xs ! j = xs ! (i * m + j)"
  by (simp add: block_def)

lemma block_zero_id: "length xs = m \<Longrightarrow> block m 0 xs = xs"
  by (simp add: block_def)

lemma block_block:
  assumes "k < q"
  shows "block n k (block (q * n) i xs) = block n (i * q + k) xs"
proof -
  have "Suc k \<le> q" using assms by simp
  then have "Suc k * n \<le> q * n" by (rule mult_le_mono1)
  then have m: "min n (q * n - k * n) = n" by simp
  have e: "k * n + i * (q * n) = (i * q + k) * n" by (simp add: add_mult_distrib)
  have "block n k (block (q * n) i xs) = take n (take (q * n - k * n) (drop (k * n) (drop (i * (q * n)) xs)))"
    by (simp only: block_def drop_take)
  also have "\<dots> = take n (drop ((i * q + k) * n) xs)"
    by (simp only: take_take m drop_drop e)
  finally show ?thesis by (simp only: block_def)
qed

lemma concat_singletons: "concat (map (\<lambda>i. [f i]) xs) = map f xs"
  by (induction xs) simp_all

lemma upt_Suc_mult: "[0..<Suc d * q] = [0..<d * q] @ map (\<lambda>h. d * q + h) [0..<q]"
proof -
  have "[0..<d * q + q] = [0..<d * q] @ [d * q..<d * q + q]"
    by (rule upt_add_eq_append) simp
  moreover have "[d * q..<d * q + q] = map (\<lambda>h. d * q + h) [0..<q]"
    by (simp add: map_add_upt add.commute)
  ultimately show ?thesis by (simp add: add.commute)
qed

lemma concat_nested:
  "concat (map (\<lambda>i. concat (map (\<lambda>h. F (i * q + h)) [0..<q])) [0..<d]) = concat (map F [0..<d * q])"
proof (induction d)
  case 0
  then show ?case by simp
next
  case (Suc d)
  show ?case
    unfolding upt_Suc_mult
    using Suc by (simp add: comp_def)
qed

lemma length_concat_blocks:
  "\<forall>i<p. length (f i) = m \<Longrightarrow> length (concat (map f [0..<p])) = p * m"
  by (induction p) simp_all

lemma nth_concat_blocks:
  assumes "\<forall>i<p. length (f i) = m" "i < p" "j < m"
  shows "concat (map f [0..<p]) ! (i * m + j) = f i ! j"
  using assms
proof (induction p)
  case 0
  then show ?case by simp
next
  case (Suc p)
  have len: "length (concat (map f [0..<p])) = p * m"
    using Suc.prems(1) by (intro length_concat_blocks) simp
  show ?case
  proof (cases "i < p")
    case True
    then have "Suc i \<le> p" by simp
    then have "Suc i * m \<le> p * m" by (rule mult_le_mono1)
    then have lt: "i * m + j < p * m" using Suc.prems(3) by simp
    have "concat (map f [0..<p]) ! (i * m + j) = f i ! j"
      using Suc.IH Suc.prems True by simp
    then show ?thesis using lt by (simp add: nth_append len)
  next
    case False
    then have "i = p" using Suc.prems(2) by simp
    then show ?thesis by (simp add: nth_append len)
  qed
qed

section \<open>Broadcasting over the channel axis\<close>

lemma block_one: "i < length xs \<Longrightarrow> block (Suc 0) i xs = [xs ! i]"
  by (simp add: block_def take_Suc_conv_app_nth flip: Cons_nth_drop_Suc)

lemma map2_as_upt:
  assumes "length xs = n" "length ys = n"
  shows "map2 f xs ys = map (\<lambda>i. f (xs ! i) (ys ! i)) [0..<n]"
  using assms by (intro nth_equalityI) simp_all

lemma bmul_data_row:
  assumes "length xs = n" "length ys = n"
  shows "bmul_data [n] [n] xs ys = map2 (*) xs ys"
proof -
  have "bmul_data [n] [n] xs ys =
          concat (map (\<lambda>i. bmul_data [] [] (block (Suc 0) (if n = 1 then 0 else i) xs)
                                            (block (Suc 0) (if n = 1 then 0 else i) ys)) [0..<n])"
    by simp
  also have "\<dots> = concat (map (\<lambda>i. [xs ! i * ys ! i]) [0..<n])"
  proof (rule arg_cong [where f = concat], rule map_cong [OF refl])
    fix i assume "i \<in> set [0..<n]"
    then have i: "i < n" by simp
    then have "(if n = 1 then 0 else i) = i" by auto
    then show "bmul_data [] [] (block (Suc 0) (if n = 1 then 0 else i) xs)
                 (block (Suc 0) (if n = 1 then 0 else i) ys) = [xs ! i * ys ! i]"
      using i assms by (simp add: block_one)
  qed
  also have "\<dots> = map (\<lambda>i. xs ! i * ys ! i) [0..<n]"
    by (rule concat_singletons)
  also have "\<dots> = map2 (*) xs ys"
    using map2_as_upt [OF assms, of "(*)"] by simp
  finally show ?thesis .
qed

lemma bmul_data_channel_base:
  assumes "length g = c * n" "length r = n"
  shows "bmul_data [c, n] [Suc 0, n] g r = concat (map (\<lambda>k. map2 (*) (block n k g) r) [0..<c])"
proof -
  have "bmul_data [c, n] [Suc 0, n] g r =
          concat (map (\<lambda>i. bmul_data [n] [n] (block n (if c = 1 then 0 else i) g) (block n 0 r)) [0..<c])"
    by simp
  also have "\<dots> = concat (map (\<lambda>k. map2 (*) (block n k g) r) [0..<c])"
  proof (rule arg_cong [where f = concat], rule map_cong [OF refl])
    fix i assume "i \<in> set [0..<c]"
    then have i: "i < c" by simp
    then have e: "(if c = 1 then 0 else i) = i" by auto
    have "Suc i \<le> c" using i by simp
    then have "Suc i * n \<le> c * n" by (rule mult_le_mono1)
    then have l: "length (block n i g) = n" using assms(1) by (intro block_length) simp
    have r: "block n 0 r = r" using assms(2) by (rule block_zero_id)
    show "bmul_data [n] [n] (block n (if c = 1 then 0 else i) g) (block n 0 r) = map2 (*) (block n i g) r"
      unfolding e r using l assms(2) by (rule bmul_data_row)
  qed
  finally show ?thesis .
qed

lemma bmul_data_channel:
  assumes "length g = prod_list hs * (c * n)" "length r = prod_list hs * n"
  shows "bmul_data (hs @ [c, n]) (hs @ [Suc 0, n]) g r =
           concat (map (\<lambda>k. map2 (*) (block n k g) (block n (k div c) r)) [0..<prod_list hs * c])"
  using assms
proof (induction hs arbitrary: g r)
  case Nil
  then have lg: "length g = c * n" and lr: "length r = n" by simp_all
  have "concat (map (\<lambda>k. map2 (*) (block n k g) r) [0..<c]) =
        concat (map (\<lambda>k. map2 (*) (block n k g) (block n (k div c) r)) [0..<c])"
  proof (rule arg_cong [where f = concat], rule map_cong [OF refl])
    fix k assume "k \<in> set [0..<c]"
    then have "k div c = 0" by simp
    then show "map2 (*) (block n k g) r = map2 (*) (block n k g) (block n (k div c) r)"
      using block_zero_id [OF lr] by simp
  qed
  then show ?case using bmul_data_channel_base [OF lg lr] by simp
next
  case (Cons d hs)
  define P where "P = prod_list hs"
  define F where "F = (\<lambda>k. map2 (*) (block n k g) (block n (k div c) r))"
  have lg: "length g = d * (P * (c * n))" and lr: "length r = d * (P * n)"
    using Cons.prems by (simp_all add: P_def mult.assoc)
  have "bmul_data ((d # hs) @ [c, n]) ((d # hs) @ [Suc 0, n]) g r =
          concat (map (\<lambda>i. bmul_data (hs @ [c, n]) (hs @ [Suc 0, n])
                              (block (P * (c * n)) (if d = 1 then 0 else i) g)
                              (block (P * n) (if d = 1 then 0 else i) r)) [0..<d])"
    by (simp add: P_def)
  also have "\<dots> = concat (map (\<lambda>i. concat (map (\<lambda>k. F (i * (P * c) + k)) [0..<P * c])) [0..<d])"
  proof (rule arg_cong [where f = concat], rule map_cong [OF refl])
    fix i assume "i \<in> set [0..<d]"
    then have i: "i < d" by simp
    then have e: "(if d = 1 then 0 else i) = i" by auto
    have sl: "Suc i \<le> d" using i by simp
    have "Suc i * (P * (c * n)) \<le> d * (P * (c * n))" using sl by (rule mult_le_mono1)
    then have l1: "length (block (P * (c * n)) i g) = prod_list hs * (c * n)"
      using lg by (simp add: block_length P_def)
    have "Suc i * (P * n) \<le> d * (P * n)" using sl by (rule mult_le_mono1)
    then have l2: "length (block (P * n) i r) = prod_list hs * n"
      using lr by (simp add: block_length P_def)
    have "bmul_data (hs @ [c, n]) (hs @ [Suc 0, n]) (block (P * (c * n)) i g) (block (P * n) i r) =
            concat (map (\<lambda>k. map2 (*) (block n k (block (P * (c * n)) i g))
                                        (block n (k div c) (block (P * n) i r))) [0..<P * c])"
      using Cons.IH [OF l1 l2] by (simp add: P_def)
    also have "\<dots> = concat (map (\<lambda>k. F (i * (P * c) + k)) [0..<P * c])"
    proof (rule arg_cong [where f = concat], rule map_cong [OF refl])
      fix k assume "k \<in> set [0..<P * c]"
      then have k: "k < P * c" by simp
      then have c: "0 < c" by (cases c) simp_all
      have kd: "k div c < P" using k c by (simp add: less_mult_imp_div_less)
      have b1: "block n k (block (P * (c * n)) i g) = block n (i * (P * c) + k) g"
        using block_block [OF k, of n i g] by (simp add: mult.assoc)
      have b2: "block n (k div c) (block (P * n) i r) = block n (i * P + k div c) r"
        using block_block [OF kd, of n i r] by simp
      have dv: "(i * (P * c) + k) div c = i * P + k div c"
        using c by (simp add: mult.assoc [symmetric])
      show "map2 (*) (block n k (block (P * (c * n)) i g)) (block n (k div c) (block (P * n) i r)) =
              F (i * (P * c) + k)"
        unfolding F_def b1 b2 dv ..
    qed
    finally show "bmul_data (hs @ [c, n]) (hs @ [Suc 0, n])
                    (block (P * (c * n)) (if d = 1 then 0 else i) g)
                    (block (P * n) (if d = 1 then 0 else i) r) =
                  concat (map (\<lambda>k. F (i * (P * c) + k)) [0..<P * c])"
      unfolding e .
  qed
  also have "\<dots> = concat (map F [0..<d * (P * c)])"
    by (rule concat_nested)
  finally show ?case by (simp add: F_def P_def mult.assoc)
qed

section \<open>The steps of forward\<close>

lemma reshape_infer_ok:
  assumes "0 < prod_list pre * prod_list post" "numel t mod (prod_list pre * prod_list post) = 0"
  shows "reshape_infer pre post t =
           Inr (t\<lparr>shape := pre @ [numel t div (prod_list pre * prod_list post)] @ post\<rparr>)"
  using assms by (simp add: reshape_infer_def Let_def)

lemma reshape_infer_fail:
  assumes "prod_list pre * prod_list post = 0 \<or> numel t mod (prod_list pre * prod_list post) \<noteq> 0"
  shows "reshape_infer pre post t = Inl RuntimeError"
  using assms by (auto simp add: reshape_infer_def Let_def)

lemma unsqueeze_m2_snoc:
  "shape t = hs @ [n] \<Longrightarrow> unsqueeze_m2 t = Inr (t\<lparr>shape := hs @ [1, n]\<rparr>)"
  by (simp add: unsqueeze_m2_def butlast_append)

lemma broadcast_dim_same [simp]: "broadcast_dim d d = Some d"
  by (simp add: broadcast_dim_def)

lemma broadcast_dim_one [simp]: "broadcast_dim c (Suc 0) = Some c"
  by (simp add: broadcast_dim_def)

lemma broadcast_shape_channel:
  "broadcast_shape (hs @ [c, n]) (hs @ [Suc 0, n]) = Some (hs @ [c, n])"
  by (induction hs) simp_all

lemma tensor_mul_channel:
  assumes "shape a = hs @ [c, n]" "shape b = hs @ [Suc 0, n]"
  shows "tensor_mul a b =
           Inr \<lparr>shape = hs @ [c, n],
                data = bmul_data (hs @ [c, n]) (hs @ [Suc 0, n]) (data a) (data b)\<rparr>"
  using assms by (simp add: tensor_mul_def pad_def broadcast_shape_channel Let_def)

lemma unpack_shape_snoc: "unpack_shape (hs @ [n]) = Inr (hs, n)"
  by (simp add: unpack_shape_def butlast_append)

lemma forward_ok:
  fixes self :: "('a::times, 'z) CplxMultichannelGainLayer_scheme"
  assumes sre: "shape re = hs @ [n]" and sim: "shape im = hs @ [n]"
    and pos: "0 < prod_list hs * n"
    and dv: "numel (gain self (m (re, im))) mod (prod_list hs * n) = 0"
    and c: "c = numel (gain self (m (re, im))) div (prod_list hs * n)"
  shows "CplxMultichannelGainLayer_forward m self (re, im) =
           Inr (if flatten self
                then (\<lparr>shape = hs @ [c * n], data = gained hs c n (gain self (m (re, im))) re\<rparr>,
                      \<lparr>shape = hs @ [c * n], data = gained hs c n (gain self (m (re, im))) im\<rparr>)
                else (\<lparr>shape = hs @ [c, n], data = gained hs c n (gain self (m (re, im))) re\<rparr>,
                      \<lparr>shape = hs @ [c, n], data = gained hs c n (gain self (m (re, im))) im\<rparr>))"
proof -
  define g where "g = gain self (m (re, im))"
  have r1: "reshape_infer hs [n] g = Inr (g\<lparr>shape := hs @ [c, n]\<rparr>)"
    using reshape_infer_ok [of hs "[n]" g] pos dv c by (simp add: g_def)
  have u1: "unsqueeze_m2 re = Inr (re\<lparr>shape := hs @ [Suc 0, n]\<rparr>)"
    using unsqueeze_m2_snoc [OF sre] by simp
  have u2: "unsqueeze_m2 im = Inr (im\<lparr>shape := hs @ [Suc 0, n]\<rparr>)"
    using unsqueeze_m2_snoc [OF sim] by simp
  have m1: "tensor_mul (g\<lparr>shape := hs @ [c, n]\<rparr>) (re\<lparr>shape := hs @ [Suc 0, n]\<rparr>) =
              Inr \<lparr>shape = hs @ [c, n], data = gained hs c n g re\<rparr>"
    by (simp add: tensor_mul_channel [of _ hs c n] gained_def)
  have m2: "tensor_mul (g\<lparr>shape := hs @ [c, n]\<rparr>) (im\<lparr>shape := hs @ [Suc 0, n]\<rparr>) =
              Inr \<lparr>shape = hs @ [c, n], data = gained hs c n g im\<rparr>"
    by (simp add: tensor_mul_channel [of _ hs c n] gained_def)
  have ph: "0 < prod_list hs" using pos by (cases "prod_list hs") simp_all
  have f: "reshape_infer hs [] \<lparr>shape = hs @ [c, n], data = d\<rparr> =
             Inr \<lparr>shape = hs @ [c * n], data = d\<rparr>" for d :: "'a list"
    using reshape_infer_ok [of hs "[]" "\<lparr>shape = hs @ [c, n], data = d\<rparr>"] ph
    by (simp add: numel_def)
  show ?thesis
    unfolding CplxMultichannelGainLayer_forward_def
    by (simp add: sre unpack_shape_snoc g_def [symmetric] r1 u1 u2 m1 m2 f Let_def)
qed

lemma forward_fail:
  fixes self :: "('a::times, 'z) CplxMultichannelGainLayer_scheme"
  assumes sre: "shape re = hs @ [n]"
    and bad: "prod_list hs * n = 0 \<or> numel (gain self (m (re, im))) mod (prod_list hs * n) \<noteq> 0"
  shows "CplxMultichannelGainLayer_forward m self (re, im) =
           Inl (ValueError (gain_message (drop (length hs) (shape (gain self (m (re, im))))) n))"
proof -
  have r1: "reshape_infer hs [n] (gain self (m (re, im))) = Inl RuntimeError"
    using reshape_infer_fail [of hs "[n]" "gain self (m (re, im))"] bad by simp
  show ?thesis
    unfolding CplxMultichannelGainLayer_forward_def
    by (simp add: sre unpack_shape_snoc r1 Let_def)
qed

section \<open>The elements of the gained parts\<close>

lemma block_length_in:
  assumes "k < p" "length xs = p * n"
  shows "length (block n k xs) = n"
proof -
  have "Suc k \<le> p" using assms(1) by simp
  then have "Suc k * n \<le> p * n" by (rule mult_le_mono1)
  then show ?thesis using assms(2) by (intro block_length) simp
qed

lemma block_nth_in:
  assumes "k < p" "length xs = p * n" "j < n"
  shows "block n k xs ! j = xs ! (k * n + j)"
proof -
  have "Suc k \<le> p" using assms(1) by simp
  then have "Suc k * n \<le> p * n" by (rule mult_le_mono1)
  then show ?thesis using assms(2,3) by (intro block_nth) simp_all
qed

lemma div_lt_channel: "k < p * c \<Longrightarrow> k div c < (p::nat)"
  by (cases "c = 0") (simp_all add: less_mult_imp_div_less)

lemma gained_eq:
  assumes "length (data g) = prod_list hs * (c * n)" "length (data x) = prod_list hs * n"
  shows "gained hs c n g x =
           concat (map (\<lambda>k. map2 (*) (block n k (data g)) (block n (k div c) (data x)))
                       [0..<prod_list hs * c])"
  unfolding gained_def using assms by (rule bmul_data_channel)

lemma gained_row_length:
  assumes "length (data g) = prod_list hs * (c * n)" "length (data x) = prod_list hs * n"
    and "k < prod_list hs * c"
  shows "length (map2 (*) (block n k (data g)) (block n (k div c) (data x))) = n"
proof -
  have "length (data g) = (prod_list hs * c) * n" using assms(1) by (simp add: mult.assoc)
  then have 1: "length (block n k (data g)) = n" using assms(3) by (intro block_length_in)
  have 2: "length (block n (k div c) (data x)) = n"
    using div_lt_channel [OF assms(3)] assms(2) by (rule block_length_in)
  show ?thesis using 1 2 by simp
qed

lemma length_gained:
  assumes "length (data g) = prod_list hs * (c * n)" "length (data x) = prod_list hs * n"
  shows "length (gained hs c n g x) = prod_list hs * c * n"
  unfolding gained_eq [OF assms]
  by (rule length_concat_blocks) (use gained_row_length [OF assms] in blast)

lemma gained_nth:
  assumes "length (data g) = prod_list hs * (c * n)" "length (data x) = prod_list hs * n"
    and k: "k < prod_list hs * c" and j: "j < n"
  shows "gained hs c n g x ! (k * n + j) = data g ! (k * n + j) * data x ! ((k div c) * n + j)"
proof -
  have lg: "length (data g) = (prod_list hs * c) * n" using assms(1) by (simp add: mult.assoc)
  have "gained hs c n g x ! (k * n + j) =
          map2 (*) (block n k (data g)) (block n (k div c) (data x)) ! j"
    unfolding gained_eq [OF assms(1,2)]
  proof (rule nth_concat_blocks)
    show "\<forall>i<prod_list hs * c.
            length (map2 (*) (block n i (data g)) (block n (i div c) (data x))) = n"
      using gained_row_length [OF assms(1,2)] by blast
  qed (rule k, rule j)
  also have "\<dots> = block n k (data g) ! j * block n (k div c) (data x) ! j"
    using block_length_in [OF k lg] block_length_in [OF div_lt_channel [OF k] assms(2)] j
    by simp
  also have "\<dots> = data g ! (k * n + j) * data x ! ((k div c) * n + j)"
    using block_nth_in [OF k lg j] block_nth_in [OF div_lt_channel [OF k] assms(2) j] by simp
  finally show ?thesis .
qed




section \<open>Successful calls\<close>

lemma forward_InrD:
  fixes self :: "('a::times, 'z) CplxMultichannelGainLayer_scheme"
  assumes "shape re = hs @ [n]"
    and "CplxMultichannelGainLayer_forward m self (re, im) = Inr r"
  shows "0 < prod_list hs * n \<and> numel (gain self (m (re, im))) mod (prod_list hs * n) = 0"
proof (rule ccontr)
  assume "\<not> ?thesis"
  then have "prod_list hs * n = 0 \<or> numel (gain self (m (re, im))) mod (prod_list hs * n) \<noteq> 0"
    by auto
  from forward_fail [where m = m and self = self, OF assms(1) this] assms(2)
  show False by simp
qed

lemma forward_Inr_eq:
  fixes self :: "('a::times, 'z) CplxMultichannelGainLayer_scheme"
  assumes "shape re = hs @ [n]" and "shape im = hs @ [n]"
    and "CplxMultichannelGainLayer_forward m self (re, im) = Inr (re', im')"
    and "c = numel (gain self (m (re, im))) div (prod_list hs * n)"
  shows "0 < prod_list hs * n"
    and "numel (gain self (m (re, im))) = prod_list hs * (c * n)"
    and "re' = \<lparr>shape = (if flatten self then hs @ [c * n] else hs @ [c, n]),
                 data = gained hs c n (gain self (m (re, im))) re\<rparr>"
    and "im' = \<lparr>shape = (if flatten self then hs @ [c * n] else hs @ [c, n]),
                 data = gained hs c n (gain self (m (re, im))) im\<rparr>"
proof -
  from forward_InrD [where m = m and self = self, OF assms(1,3)]
  have pos: "0 < prod_list hs * n"
    and dv: "numel (gain self (m (re, im))) mod (prod_list hs * n) = 0" by simp_all
  show "0 < prod_list hs * n" by (rule pos)
  have "prod_list hs * n dvd numel (gain self (m (re, im)))"
    using dv by (simp add: mod_eq_0_iff_dvd)
  then have "numel (gain self (m (re, im))) = c * (prod_list hs * n)"
    unfolding assms(4) by simp
  then show "numel (gain self (m (re, im))) = prod_list hs * (c * n)"
    by (simp add: mult.left_commute)
  from forward_ok [where m = m and self = self, OF assms(1,2) pos dv assms(4)] assms(3)
  show "re' = \<lparr>shape = (if flatten self then hs @ [c * n] else hs @ [c, n]),
                 data = gained hs c n (gain self (m (re, im))) re\<rparr>"
    and "im' = \<lparr>shape = (if flatten self then hs @ [c * n] else hs @ [c, n]),
                 data = gained hs c n (gain self (m (re, im))) im\<rparr>"
    by (cases "flatten self"; simp)+
qed

section \<open>Concatenation along the last axis\<close>

lemma cat_rows_one: "length ys = q \<Longrightarrow> cat_rows (Suc 0) 0 q [] ys = ys"
  by (simp add: cat_rows_def block_def)

lemma cat_rows_one': "length xs = p \<Longrightarrow> cat_rows (Suc 0) p 0 xs ys = xs"
  by (simp add: cat_rows_def block_def)

lemma cat_last_rows:
  fixes a b :: "'a tensor"
  assumes sa: "shape a = hs @ [p]" and sb: "shape b = hs @ [q]"
    and la: "length (data a) = prod_list hs * p" and lb: "length (data b) = prod_list hs * q"
  shows "cat_last a b = Inr \<lparr>shape = hs @ [p + q],
                             data = cat_rows (prod_list hs) p q (data a) (data b)\<rparr>"
proof -
  consider (a0) "shape a = [0]" | (b0) "shape a \<noteq> [0]" "shape b = [0]"
    | (gen) "shape a \<noteq> [0]" "shape b \<noteq> [0]" by blast
  then show ?thesis
  proof cases
    case a0
    then have h: "hs = []" "p = 0" using sa by (cases hs; simp)+
    have "b = \<lparr>shape = [q], data = data b\<rparr>" using sb h by simp
    moreover have "cat_rows (Suc 0) 0 q (data a) (data b) = data b"
      using la lb h by (simp add: cat_rows_one)
    ultimately show ?thesis using a0 sb h by (simp add: cat_last_def)
  next
    case b0
    then have h: "hs = []" "q = 0" using sb by (cases hs; simp)+
    have "a = \<lparr>shape = [p], data = data a\<rparr>" using sa h by simp
    moreover have "cat_rows (Suc 0) p 0 (data a) (data b) = data a"
      using la h by (simp add: cat_rows_one')
    ultimately show ?thesis using b0 sa sb h by (simp add: cat_last_def)
  next
    case gen
    then show ?thesis using sa sb by (auto simp add: cat_last_def butlast_append)
  qed
qed

lemma projection_forward_eq:
  fixes self :: "('a::times, 'b, 'z) CplxProjectionGainLayer_scheme"
  assumes fl: "flatten self"
    and sre: "shape re = hs @ [n]" and sim: "shape im = hs @ [n]"
    and wre: "wf_tensor re" and wim: "wf_tensor im"
    and wg: "wf_tensor (gain self (m (re, im)))"
    and ok: "CplxMultichannelGainLayer_forward m self (re, im) = Inr (re_g, im_g)"
    and c: "c = numel (gain self (m (re, im))) div (prod_list hs * n)"
  shows "CplxProjectionGainLayer_forward m self (re, im) =
           Inr (projection self
             (\<lparr>shape = hs @ [c * n + n],
               data = cat_rows (prod_list hs) (c * n) n (data re_g) (data re)\<rparr>,
              \<lparr>shape = hs @ [c * n + n],
               data = cat_rows (prod_list hs) (c * n) n (data im_g) (data im)\<rparr>))"
proof -
  note e = forward_Inr_eq [OF sre sim ok c]
  have lg: "length (data (gain self (m (re, im)))) = prod_list hs * (c * n)"
    using wg e(2) by (simp add: wf_tensor_def numel_def)
  have lre: "length (data re) = prod_list hs * n" using wre sre by (simp add: wf_tensor_def)
  have lim: "length (data im) = prod_list hs * n" using wim sim by (simp add: wf_tensor_def)
  have s1: "shape re_g = hs @ [c * n]" and s2: "shape im_g = hs @ [c * n]"
    using e(3,4) fl by simp_all
  have l1: "length (data re_g) = prod_list hs * (c * n)"
    using e(3) length_gained [OF lg lre] by (simp add: mult.assoc)
  have l2: "length (data im_g) = prod_list hs * (c * n)"
    using e(4) length_gained [OF lg lim] by (simp add: mult.assoc)
  show ?thesis
    unfolding CplxProjectionGainLayer_forward_def
    by (simp add: ok cat_last_rows [OF s1 sre l1 lre] cat_last_rows [OF s2 sim l2 lim])
qed

lemma cat_rows_nth_left:
  assumes "length xs = P * p" "length ys = P * q" "h < P" "i < p"
  shows "cat_rows P p q xs ys ! (h * (p + q) + i) = xs ! (h * p + i)"
proof -
  have len: "\<forall>k<P. length (block p k xs @ block q k ys) = p + q"
    using assms(1,2) by (simp add: block_length_in)
  have "cat_rows P p q xs ys ! (h * (p + q) + i) = (block p h xs @ block q h ys) ! i"
    unfolding cat_rows_def using len assms(3) by (rule nth_concat_blocks) (use assms(4) in simp)
  also have "\<dots> = xs ! (h * p + i)"
    using assms by (simp add: nth_append block_length_in block_nth_in)
  finally show ?thesis .
qed

lemma cat_rows_nth_right:
  assumes "length xs = P * p" "length ys = P * q" "h < P" "i < q"
  shows "cat_rows P p q xs ys ! (h * (p + q) + (p + i)) = ys ! (h * q + i)"
proof -
  have len: "\<forall>k<P. length (block p k xs @ block q k ys) = p + q"
    using assms(1,2) by (simp add: block_length_in)
  have "cat_rows P p q xs ys ! (h * (p + q) + (p + i)) = (block p h xs @ block q h ys) ! (p + i)"
    unfolding cat_rows_def using len assms(3) by (rule nth_concat_blocks) (use assms(4) in simp)
  also have "\<dots> = ys ! (h * q + i)"
    using assms by (simp add: nth_append block_length_in block_nth_in)
  finally show ?thesis .
qed

lemma channel_index:
  assumes "h < P" "ch < (c::nat)"
  shows "h * c + ch < P * c" and "(h * c + ch) div c = h"
proof -
  have "Suc h \<le> P" using assms(1) by simp
  then have "Suc h * c \<le> P * c" by (rule mult_le_mono1)
  then show "h * c + ch < P * c" using assms(2) by simp
  show "(h * c + ch) div c = h" using assms(2) by simp
qed

lemma gained_entry:
  assumes "length (data g) = prod_list hs * (c * n)" "length (data x) = prod_list hs * n"
    and "h < prod_list hs" "ch < c" "j < n"
  shows "gained hs c n g x ! ((h * c + ch) * n + j) =
           data g ! ((h * c + ch) * n + j) * data x ! (h * n + j)"
  using gained_nth [OF assms(1,2) channel_index(1) [OF assms(3,4)] assms(5)]
  by (simp add: channel_index(2) [OF assms(3,4)])

section \<open>The phase of a reversed entry\<close>

lemma Arg_flip: "Arg (Complex (- 1) 0) \<noteq> Arg (Complex 1 0)"
proof -
  have "Arg (Complex (- 1) 0) = pi"
    by (rule cis_Arg_unique) (simp_all add: complex_eq_iff sgn_eq complex_norm)
  moreover have "Arg (Complex 1 0) = 0"
    by (rule cis_Arg_unique) (simp_all add: complex_eq_iff sgn_eq complex_norm)
  ultimately show ?thesis by simp
qed

section \<open>The calls and the layer object\<close>

lemma multichannel_call_eq:
  "CplxMultichannelGainLayer_forward_call m x self = (CplxMultichannelGainLayer_forward m self x, self)"
  unfolding CplxMultichannelGainLayer_forward_call_def CplxMultichannelGainLayer_forward_def
  by (simp add: and_then_def attr_def returns_def evaluate_def reshape_gain_def Let_def
      split: prod.splits sum.splits error.splits)

lemma projection_call_eq:
  "CplxProjectionGainLayer_forward_call m x self = (CplxProjectionGainLayer_forward m self x, self)"
  unfolding CplxProjectionGainLayer_forward_call_def CplxProjectionGainLayer_forward_def
  by (simp add: multichannel_call_eq and_then_def attr_def returns_def evaluate_def
      split: prod.splits sum.splits)

lemma multichannel_fields_only:
  fixes A :: "('a::times, 'c) CplxMultichannelGainLayer_scheme"
    and B :: "('a, 'd) CplxMultichannelGainLayer_scheme"
  assumes "gain A = gain B" "flatten A = flatten B"
  shows "CplxMultichannelGainLayer_forward m A x = CplxMultichannelGainLayer_forward m B x"
  unfolding CplxMultichannelGainLayer_forward_def assms by (rule refl)

lemma projection_fields_only:
  fixes A :: "('a::times, 'b, 'c) CplxProjectionGainLayer_scheme"
    and B :: "('a, 'b, 'd) CplxProjectionGainLayer_scheme"
  assumes "gain A = gain B" "flatten A = flatten B" "projection A = projection B"
  shows "CplxProjectionGainLayer_forward m A x = CplxProjectionGainLayer_forward m B x"
  unfolding CplxProjectionGainLayer_forward_def multichannel_fields_only [OF assms(1,2)] assms(3)
  by (rule refl)

section \<open>Unfolding the layers on concrete tensors\<close>

lemmas forward_eval =
  CplxMultichannelGainLayer_forward_def CplxProjectionGainLayer_forward_def
  unpack_shape_def reshape_infer_def numel_def const_gain_def ones_def unsqueeze_m2_def
  tensor_mul_def pad_def broadcast_dim_def block_def cat_last_def cat_rows_def upt_rec Let_def
  gain_message_def str_tuple_def str_nat.simps digit_char_def

section \<open>The claims\<close>

subsection \<open>C1\<close>

text \<open>
  C1 (amended). For parts of shape \<open>(*hs, n)\<close> with at least one element and a gain whose
  output has \<open>c * n\<close> elements per position of \<open>hs\<close>, \<open>forward\<close> returns parts of shape
  \<open>(*hs, c, n)\<close> when \<open>flatten\<close> is off and of shape \<open>(*hs, c * n)\<close> when it is on. An input
  without elements is refused: the framework does not infer the free size of a reshape
  whose other sizes multiply to zero, and the layer turns that into its \<open>ValueError\<close>.
\<close>

theorem multichannel_forward_shape:
  fixes self :: "('a::times, 'z) CplxMultichannelGainLayer_scheme"
  assumes "shape re = hs @ [n]" and "shape im = hs @ [n]"
    and "numel (gain self (m (re, im))) = prod_list hs * (c * n)"
    and "0 < prod_list hs * n"
  shows "\<exists>re' im'. CplxMultichannelGainLayer_forward m self (re, im) = Inr (re', im')
           \<and> shape re' = (if flatten self then hs @ [c * n] else hs @ [c, n])
           \<and> shape im' = (if flatten self then hs @ [c * n] else hs @ [c, n])"
proof -
  let ?g = "gain self (m (re, im))"
  have e: "numel ?g = c * (prod_list hs * n)" using assms(3) by (simp add: mult.left_commute)
  have dv: "numel ?g mod (prod_list hs * n) = 0" unfolding e by simp
  have c: "c = numel ?g div (prod_list hs * n)" unfolding e using assms(4) by simp
  show ?thesis
    using forward_ok [where m = m and self = self, OF assms(1,2,4) dv c] by (cases "flatten self") simp_all
qed

text \<open>
  The amended C1 at \<open>hs = ()\<close>, \<open>n = 3\<close>, \<open>c = 2\<close>, and at \<open>hs = (2,)\<close> flattened.
\<close>

theorem multichannel_forward_shape_witness:
  "(\<exists>re' im'. CplxMultichannelGainLayer_forward cplx_modulus
        \<lparr>gain = const_gain (ones [6]), flatten = False\<rparr>
        (\<lparr>shape = [3], data = [1, 2, 3]\<rparr>, \<lparr>shape = [3], data = [0, 0, 0]\<rparr>) = Inr (re', im')
      \<and> shape re' = [2, 3] \<and> shape im' = [2, 3])
   \<and> (\<exists>re' im'. CplxMultichannelGainLayer_forward cplx_modulus
        \<lparr>gain = const_gain (ones [2, 6]), flatten = True\<rparr>
        (\<lparr>shape = [2, 3], data = [1, 2, 3, 4, 5, 6]\<rparr>, \<lparr>shape = [2, 3], data = [0, 0, 0, 0, 0, 0]\<rparr>)
          = Inr (re', im')
      \<and> shape re' = [2, 6] \<and> shape im' = [2, 6])"
proof -
  have a: "numel (gain \<lparr>gain = const_gain (ones [6]), flatten = False\<rparr>
             (cplx_modulus (\<lparr>shape = [3], data = [1, 2, 3]\<rparr>, \<lparr>shape = [3], data = [0, 0, 0]\<rparr>)))
           = prod_list [] * (2 * 3)"
    by (simp add: numel_def const_gain_def ones_def)
  have b: "numel (gain \<lparr>gain = const_gain (ones [2, 6]), flatten = True\<rparr>
             (cplx_modulus (\<lparr>shape = [2, 3], data = [1, 2, 3, 4, 5, 6]\<rparr>,
                            \<lparr>shape = [2, 3], data = [0, 0, 0, 0, 0, 0]\<rparr>)))
           = prod_list [2] * (2 * 3)"
    by (simp add: numel_def const_gain_def ones_def)
  show ?thesis
    using multichannel_forward_shape [of "\<lparr>shape = [3], data = [1, 2, 3]\<rparr>" "[]" 3
        "\<lparr>shape = [3], data = [0, 0, 0]\<rparr>" "\<lparr>gain = const_gain (ones [6]), flatten = False\<rparr>"
        cplx_modulus 2, OF _ _ a]
      multichannel_forward_shape [of "\<lparr>shape = [2, 3], data = [1, 2, 3, 4, 5, 6]\<rparr>" "[2]" 3
        "\<lparr>shape = [2, 3], data = [0, 0, 0, 0, 0, 0]\<rparr>"
        "\<lparr>gain = const_gain (ones [2, 6]), flatten = True\<rparr>" cplx_modulus 2, OF _ _ b]
    by simp
qed

text \<open>
  C1 as stated fails on an empty batch, \<open>hs = (0,)\<close>, \<open>n = 3\<close>, \<open>c = 2\<close>: the call raises.
\<close>

theorem multichannel_forward_shape_counterexample:
  "shape \<lparr>shape = [0, 3], data = [] :: real list\<rparr> = [0] @ [3]
   \<and> numel (gain \<lparr>gain = const_gain (ones [0, 6]), flatten = True\<rparr>
        (cplx_modulus (\<lparr>shape = [0, 3], data = []\<rparr>, \<lparr>shape = [0, 3], data = []\<rparr>)))
       = prod_list [0] * (2 * 3)
   \<and> CplxMultichannelGainLayer_forward cplx_modulus
        \<lparr>gain = const_gain (ones [0, 6]), flatten = True\<rparr>
        (\<lparr>shape = [0, 3], data = []\<rparr>, \<lparr>shape = [0, 3], data = []\<rparr>)
       = Inl (ValueError ''`gain` (6,) is incompatible with the input complex tensor 3.'')"
  by (simp add: forward_eval)

subsection \<open>C2\<close>



subsection \<open>C3\<close>




subsection \<open>C4\<close>

text \<open>
  C4 (amended). Where \<open>forward\<close> succeeds, the output entry of position \<open>h\<close>, channel \<open>ch\<close> and
  feature \<open>j\<close> has real part and imaginary part equal to the input's at \<open>(h, j)\<close>, each
  multiplied by the one gain value at \<open>(h, ch, j)\<close>. The products are those of the element
  type, whatever its arithmetic. Nothing is said of the phase: a negative gain value
  reverses the entry.
\<close>

theorem gain_scales_entries:
  fixes self :: "('a::times, 'z) CplxMultichannelGainLayer_scheme"
  assumes sre: "shape re = hs @ [n]" and sim: "shape im = hs @ [n]"
    and wre: "wf_tensor re" and wim: "wf_tensor im"
    and wg: "wf_tensor (gain self (m (re, im)))"
    and ok: "CplxMultichannelGainLayer_forward m self (re, im) = Inr (re', im')"
    and c: "c = numel (gain self (m (re, im))) div (prod_list hs * n)"
    and h: "h < prod_list hs" and ch: "ch < c" and j: "j < n"
    and k: "k = (h * c + ch) * n + j"
  shows "data re' ! k = data (gain self (m (re, im))) ! k * data re ! (h * n + j)
       \<and> data im' ! k = data (gain self (m (re, im))) ! k * data im ! (h * n + j)"
proof -
  note e = forward_Inr_eq [OF sre sim ok c]
  have lg: "length (data (gain self (m (re, im)))) = prod_list hs * (c * n)"
    using wg e(2) by (simp add: wf_tensor_def numel_def)
  have lre: "length (data re) = prod_list hs * n" using wre sre by (simp add: wf_tensor_def)
  have lim: "length (data im) = prod_list hs * n" using wim sim by (simp add: wf_tensor_def)
  have 1: "data re' ! k = data (gain self (m (re, im))) ! k * data re ! (h * n + j)"
    unfolding k using gained_entry [OF lg lre h ch j] e(3) by simp
  have 2: "data im' ! k = data (gain self (m (re, im))) ! k * data im ! (h * n + j)"
    unfolding k using gained_entry [OF lg lim h ch j] e(4) by simp
  show ?thesis by (rule conjI [OF 1 2])
qed

text \<open>
  The amended C4 at \<open>n = 2\<close>, \<open>c = 2\<close>, channel 1, feature 1: gain 7 on \<open>2 + 6i\<close>.
\<close>

theorem gain_scales_entries_witness:
  "CplxMultichannelGainLayer_forward cplx_modulus
     \<lparr>gain = const_gain \<lparr>shape = [4], data = [2, 3, 5, 7]\<rparr>, flatten = False\<rparr>
     (\<lparr>shape = [2], data = [1, 2]\<rparr>, \<lparr>shape = [2], data = [4, 6]\<rparr>)
   = Inr (\<lparr>shape = [2, 2], data = [2, 6, 5, 14]\<rparr>, \<lparr>shape = [2, 2], data = [8, 18, 20, 42]\<rparr>)
   \<and> [2, 6, 5, 14] ! 3 = [2, 3, 5, 7] ! 3 * [1, 2 :: real] ! (0 * 2 + 1)
   \<and> [8, 18, 20, 42] ! 3 = [2, 3, 5, 7] ! 3 * [4, 6 :: real] ! (0 * 2 + 1)"
proof -
  let ?G = "\<lparr>shape = [4], data = [2, 3, 5, 7]\<rparr> :: real tensor"
  let ?L = "\<lparr>gain = const_gain ?G, flatten = False\<rparr> :: real CplxMultichannelGainLayer"
  let ?re = "\<lparr>shape = [2], data = [1, 2]\<rparr> :: real tensor"
  let ?im = "\<lparr>shape = [2], data = [4, 6]\<rparr> :: real tensor"
  let ?re' = "\<lparr>shape = [2, 2], data = [2, 6, 5, 14]\<rparr> :: real tensor"
  let ?im' = "\<lparr>shape = [2, 2], data = [8, 18, 20, 42]\<rparr> :: real tensor"
  have f: "CplxMultichannelGainLayer_forward cplx_modulus ?L (?re, ?im) = Inr (?re', ?im')"
    by (simp add: forward_eval)
  have sre: "shape ?re = [] @ [2]" and sim: "shape ?im = [] @ [2]" by simp_all
  have wre: "wf_tensor ?re" and wim: "wf_tensor ?im"
    and wg: "wf_tensor (gain ?L (cplx_modulus (?re, ?im)))"
    by (simp_all add: wf_tensor_def const_gain_def)
  have c: "(2::nat) = numel (gain ?L (cplx_modulus (?re, ?im))) div (prod_list [] * 2)"
    by (simp add: numel_def const_gain_def)
  have h: "(0::nat) < prod_list []" and ch: "(1::nat) < 2" and j: "(1::nat) < 2" by simp_all
  have k: "(3::nat) = (0 * 2 + 1) * 2 + 1" by simp
  have g: "gain ?L (cplx_modulus (?re, ?im)) = ?G" by (simp add: const_gain_def)
  note t = gain_scales_entries [where self = ?L and hs = "[]" and n = 2 and re = ?re and im = ?im
        and m = cplx_modulus and c = 2 and h = 0 and ch = 1 and j = 1 and k = 3
        and re' = ?re' and im' = ?im', OF sre sim wre wim wg f c h ch j k]
  have 1: "[2, 6, 5, 14] ! 3 = [2, 3, 5, 7] ! 3 * [1, 2 :: real] ! (0 * 2 + 1)"
    using t [THEN conjunct1] unfolding g by simp
  have 2: "[8, 18, 20, 42] ! 3 = [2, 3, 5, 7] ! 3 * [4, 6 :: real] ! (0 * 2 + 1)"
    using t [THEN conjunct2] unfolding g by simp
  show ?thesis by (rule conjI [OF f conjI [OF 1 2]])
qed

text \<open>
  C4 as stated fails for the gain \<open>-1\<close> on the entry \<open>1 + 0i\<close>: the phase goes from 0 to \<open>\<pi>\<close>.
\<close>

theorem gain_scales_entries_counterexample:
  "CplxMultichannelGainLayer_forward cplx_modulus
     \<lparr>gain = const_gain \<lparr>shape = [1], data = [- 1]\<rparr>, flatten = False\<rparr>
     (\<lparr>shape = [1], data = [1]\<rparr>, \<lparr>shape = [1], data = [0]\<rparr>)
   = Inr (\<lparr>shape = [1, 1], data = [- 1]\<rparr>, \<lparr>shape = [1, 1], data = [0]\<rparr>)
   \<and> Arg (Complex (- 1) 0) \<noteq> Arg (Complex 1 0)"
  using Arg_flip by (simp add: forward_eval)

subsection \<open>C5\<close>

text \<open>
  C5. For an input of shape \<open>(*hs, n)\<close>, when the gain's element count is the element count
  of no shape \<open>(*hs, c, n)\<close>, \<open>forward\<close> raises the \<open>ValueError\<close> whose message holds the
  gain's shape without its first \<open>length hs\<close> axes, printed as a tuple, and \<open>n\<close>. The result is
  a function of the gain and the input alone, so every later call raises the same error.
\<close>

theorem gain_mismatch_error:
  fixes self :: "('a::times, 'z) CplxMultichannelGainLayer_scheme"
  assumes "shape re = hs @ [n]"
    and "\<forall>c. numel (gain self (m (re, im))) \<noteq> prod_list (hs @ [c, n])"
  shows "CplxMultichannelGainLayer_forward m self (re, im) =
           Inl (ValueError (gain_message (drop (length hs) (shape (gain self (m (re, im))))) n))
         \<and> sublist (str_tuple (drop (length hs) (shape (gain self (m (re, im))))))
             (gain_message (drop (length hs) (shape (gain self (m (re, im))))) n)
         \<and> sublist (str_nat n)
             (gain_message (drop (length hs) (shape (gain self (m (re, im))))) n)"
proof -
  let ?g = "gain self (m (re, im))"
  let ?k = "prod_list hs * n"
  have bad: "?k = 0 \<or> numel ?g mod ?k \<noteq> 0"
  proof (rule ccontr)
    assume "\<not> ?thesis"
    then have "numel ?g mod ?k = 0" by simp
    then have "?k dvd numel ?g" by (simp add: mod_eq_0_iff_dvd)
    then have "numel ?g = (numel ?g div ?k) * ?k" by simp
    then have "numel ?g = prod_list (hs @ [numel ?g div ?k, n])"
      by (simp add: mult.left_commute mult.commute)
    with assms(2) show False by blast
  qed
  have 1: "sublist (str_tuple t) (gain_message t n)" for t
    unfolding gain_message_def sublist_def by (rule exI, rule exI, rule refl)
  have 2: "sublist (str_nat n) (gain_message t n)" for t
    unfolding gain_message_def sublist_def
    by (rule exI [of _ "''`gain` '' @ str_tuple t @ '' is incompatible with the input complex tensor ''"],
        rule exI [of _ "''.''"]) simp
  show ?thesis
    using forward_fail [where m = m and self = self, OF assms(1) bad] 1 2 by simp
qed

text \<open>
  C5 at \<open>hs = ()\<close>, \<open>n = 3\<close> and a gain of shape \<open>(2, 2)\<close>.
\<close>

theorem gain_mismatch_error_witness:
  "CplxMultichannelGainLayer_forward cplx_modulus
     \<lparr>gain = const_gain (ones [2, 2]), flatten = False\<rparr>
     (\<lparr>shape = [3], data = [1, 2, 3]\<rparr>, \<lparr>shape = [3], data = [0, 0, 0]\<rparr>)
   = Inl (ValueError ''`gain` (2, 2) is incompatible with the input complex tensor 3.'')
   \<and> sublist ''(2, 2)'' ''`gain` (2, 2) is incompatible with the input complex tensor 3.''
   \<and> sublist ''3'' ''`gain` (2, 2) is incompatible with the input complex tensor 3.''"
proof -
  let ?L = "\<lparr>gain = const_gain (ones [2, 2]), flatten = False\<rparr> :: real CplxMultichannelGainLayer"
  let ?re = "\<lparr>shape = [3], data = [1, 2, 3]\<rparr> :: real tensor"
  let ?im = "\<lparr>shape = [3], data = [0, 0, 0]\<rparr> :: real tensor"
  have a: "\<forall>c. numel (gain ?L (cplx_modulus (?re, ?im))) \<noteq> prod_list ([] @ [c, 3])"
  proof
    fix c :: nat
    have "(4::nat) \<noteq> c * 3" by presburger
    then show "numel (gain ?L (cplx_modulus (?re, ?im))) \<noteq> prod_list ([] @ [c, 3])"
      by (simp add: numel_def const_gain_def ones_def)
  qed
  have s: "shape (gain ?L (cplx_modulus (?re, ?im))) = [2, 2]"
    by (simp add: const_gain_def ones_def)
  have g: "gain_message [2, 2] 3 = ''`gain` (2, 2) is incompatible with the input complex tensor 3.''"
    by (simp add: gain_message_def str_tuple_def str_nat.simps digit_char_def)
  have t: "str_tuple [2, 2] = ''(2, 2)''" "str_nat 3 = ''3''"
    by (simp_all add: str_tuple_def str_nat.simps digit_char_def)
  show ?thesis
    using gain_mismatch_error [of ?re "[]" 3 ?L cplx_modulus ?im, OF _ a]
    unfolding s by (simp add: g t)
qed

subsection \<open>C6\<close>

text \<open>
  C6. For an input of shape \<open>(*hs, n)\<close> and a gain with \<open>n\<close> outputs per position of \<open>hs\<close>
  (one channel), the layer with \<open>flatten\<close> and the layer without return the same elements:
  each output is the other reshaped between \<open>(*hs, 1, n)\<close> and \<open>(*hs, n)\<close>, and the two calls
  fail together, with the same error.
\<close>

theorem flatten_round_trip:
  fixes self :: "('a::times, 'z) CplxMultichannelGainLayer_scheme"
  assumes sre: "shape re = hs @ [n]" and sim: "shape im = hs @ [n]"
    and one: "numel (gain self (m (re, im))) = prod_list hs * n"
  shows "(\<forall>r i. CplxMultichannelGainLayer_forward m (self\<lparr>flatten := False\<rparr>) (re, im) = Inr (r, i) \<longrightarrow>
            shape r = hs @ [1, n] \<and> shape i = hs @ [1, n]
            \<and> CplxMultichannelGainLayer_forward m (self\<lparr>flatten := True\<rparr>) (re, im) =
                Inr (r\<lparr>shape := hs @ [n]\<rparr>, i\<lparr>shape := hs @ [n]\<rparr>))
       \<and> (\<forall>r i. CplxMultichannelGainLayer_forward m (self\<lparr>flatten := True\<rparr>) (re, im) = Inr (r, i) \<longrightarrow>
            shape r = hs @ [n] \<and> shape i = hs @ [n]
            \<and> CplxMultichannelGainLayer_forward m (self\<lparr>flatten := False\<rparr>) (re, im) =
                Inr (r\<lparr>shape := hs @ [1, n]\<rparr>, i\<lparr>shape := hs @ [1, n]\<rparr>))
       \<and> (\<forall>e. (CplxMultichannelGainLayer_forward m (self\<lparr>flatten := False\<rparr>) (re, im) = Inl e) =
                (CplxMultichannelGainLayer_forward m (self\<lparr>flatten := True\<rparr>) (re, im) = Inl e))"
proof (cases "prod_list hs * n = 0")
  case True
  then have bad: "prod_list hs * n = 0 \<or>
      numel (gain (self\<lparr>flatten := b\<rparr>) (m (re, im))) mod (prod_list hs * n) \<noteq> 0" for b
    by simp
  show ?thesis
    using forward_fail [where m = m and self = "self\<lparr>flatten := False\<rparr>", OF sre bad]
      forward_fail [where m = m and self = "self\<lparr>flatten := True\<rparr>", OF sre bad]
    by simp
next
  case False
  then have pos: "0 < prod_list hs * n" by simp
  have dv: "numel (gain (self\<lparr>flatten := b\<rparr>) (m (re, im))) mod (prod_list hs * n) = 0" for b
    using one by simp
  have c: "1 = numel (gain (self\<lparr>flatten := b\<rparr>) (m (re, im))) div (prod_list hs * n)" for b
    using one pos by simp
  show ?thesis
    using forward_ok [where m = m and self = "self\<lparr>flatten := False\<rparr>", OF sre sim pos dv c]
      forward_ok [where m = m and self = "self\<lparr>flatten := True\<rparr>", OF sre sim pos dv c]
    by simp
qed

text \<open>
  C6 at \<open>hs = (2,)\<close>, \<open>n = 2\<close>.
\<close>

theorem flatten_round_trip_witness:
  "CplxMultichannelGainLayer_forward cplx_modulus
     \<lparr>gain = const_gain \<lparr>shape = [2, 2], data = [2, 3, 5, 7]\<rparr>, flatten = False\<rparr>
     (\<lparr>shape = [2, 2], data = [1, 2, 3, 4]\<rparr>, \<lparr>shape = [2, 2], data = [0, 1, 0, 1]\<rparr>)
   = Inr (\<lparr>shape = [2, 1, 2], data = [2, 6, 15, 28]\<rparr>, \<lparr>shape = [2, 1, 2], data = [0, 3, 0, 7]\<rparr>)
   \<and> CplxMultichannelGainLayer_forward cplx_modulus
     \<lparr>gain = const_gain \<lparr>shape = [2, 2], data = [2, 3, 5, 7]\<rparr>, flatten = True\<rparr>
     (\<lparr>shape = [2, 2], data = [1, 2, 3, 4]\<rparr>, \<lparr>shape = [2, 2], data = [0, 1, 0, 1]\<rparr>)
   = Inr (\<lparr>shape = [2, 2], data = [2, 6, 15, 28]\<rparr>, \<lparr>shape = [2, 2], data = [0, 3, 0, 7]\<rparr>)"
proof -
  let ?L = "\<lparr>gain = const_gain \<lparr>shape = [2, 2], data = [2, 3, 5, 7]\<rparr>, flatten = False\<rparr>
              :: real CplxMultichannelGainLayer"
  let ?re = "\<lparr>shape = [2, 2], data = [1, 2, 3, 4]\<rparr> :: real tensor"
  let ?im = "\<lparr>shape = [2, 2], data = [0, 1, 0, 1]\<rparr> :: real tensor"
  let ?r = "\<lparr>shape = [2, 1, 2], data = [2, 6, 15, 28]\<rparr> :: real tensor"
  let ?i = "\<lparr>shape = [2, 1, 2], data = [0, 3, 0, 7]\<rparr> :: real tensor"
  have f: "CplxMultichannelGainLayer_forward cplx_modulus (?L\<lparr>flatten := False\<rparr>) (?re, ?im) =
      Inr (?r, ?i)"
    by (simp add: forward_eval)
  have sre: "shape ?re = [2] @ [2]" and sim: "shape ?im = [2] @ [2]" by simp_all
  have one: "numel (gain ?L (cplx_modulus (?re, ?im))) = prod_list [2] * 2"
    by (simp add: numel_def const_gain_def)
  note t = flatten_round_trip [where self = ?L and hs = "[2]" and n = 2 and re = ?re and im = ?im
        and m = cplx_modulus, OF sre sim one]
  have g: "CplxMultichannelGainLayer_forward cplx_modulus (?L\<lparr>flatten := True\<rparr>) (?re, ?im) =
      Inr (?r\<lparr>shape := [2] @ [2]\<rparr>, ?i\<lparr>shape := [2] @ [2]\<rparr>)"
    using t [THEN conjunct1, rule_format, OF f] by (elim conjE)
  show ?thesis
  proof (rule conjI)
    show "CplxMultichannelGainLayer_forward cplx_modulus ?L (?re, ?im) = Inr (?r, ?i)"
      using f by simp
    show "CplxMultichannelGainLayer_forward cplx_modulus
       \<lparr>gain = const_gain \<lparr>shape = [2, 2], data = [2, 3, 5, 7]\<rparr>, flatten = True\<rparr> (?re, ?im)
      = Inr (\<lparr>shape = [2, 2], data = [2, 6, 15, 28]\<rparr>, \<lparr>shape = [2, 2], data = [0, 3, 0, 7]\<rparr>)"
      using g by simp
  qed
qed

subsection \<open>C7\<close>

text \<open>
  C7. The constructor of the projection layer raises \<open>AssertionError\<close>, and so returns no
  layer on which \<open>forward\<close> could be called, when the projection fails the check
  \<open>is_cplx_to_cplx\<close>; when it passes, the constructor returns the layer holding it.
\<close>

theorem projection_init_check:
  "(\<not> is_cplx_to_cplx p \<longrightarrow>
      CplxProjectionGainLayer_init is_cplx_to_cplx g p = Inl AssertionError)
   \<and> (is_cplx_to_cplx p \<longrightarrow>
      CplxProjectionGainLayer_init is_cplx_to_cplx g p =
        Inr \<lparr>gain = g, flatten = True, projection = p\<rparr>
      \<and> projection \<lparr>gain = g, flatten = True, projection = p\<rparr> = p)"
  by (simp add: CplxProjectionGainLayer_init_def)

text \<open>
  C7 at a check that refuses everything and at one that accepts everything.
\<close>

theorem projection_init_check_witness:
  "CplxProjectionGainLayer_init (\<lambda>p. False) (const_gain (ones [2])) (\<lambda>z. z)
     = (Inl AssertionError :: error + (real, real tensor \<times> real tensor) CplxProjectionGainLayer)
   \<and> CplxProjectionGainLayer_init (\<lambda>p. True) (const_gain (ones [2])) (\<lambda>z. z)
     = (Inr \<lparr>gain = const_gain (ones [2]), flatten = True, projection = (\<lambda>z. z)\<rparr>
          :: error + (real, real tensor \<times> real tensor) CplxProjectionGainLayer)"
  using projection_init_check [of "\<lambda>p. False" "\<lambda>z. z" "const_gain (ones [2])"]
    projection_init_check [of "\<lambda>p. True" "\<lambda>z. z" "const_gain (ones [2])"]
  by simp

subsection \<open>C8\<close>

text \<open>
  C8. Both \<open>forward\<close> read attributes of their layer and assign to none. As steps on the
  layer object, each call returns the object it was given, on success and on error alike,
  together with the value of the function \<open>forward\<close> of the modulus, the object and the
  input; so a second call on the same input meets the same object and returns the same.
  The result depends on the object through \<open>gain\<close> and \<open>flatten\<close> (and \<open>projection\<close>) only.
\<close>

theorem forward_stateless:
  fixes self :: "('a::times, 'y) CplxMultichannelGainLayer_scheme"
    and other :: "('a, 'z) CplxMultichannelGainLayer_scheme"
    and pself :: "('a, 'b, 'v) CplxProjectionGainLayer_scheme"
    and pother :: "('a, 'b, 'w) CplxProjectionGainLayer_scheme"
  shows "CplxMultichannelGainLayer_forward_call m x self =
           (CplxMultichannelGainLayer_forward m self x, self)
       \<and> CplxProjectionGainLayer_forward_call m x pself =
           (CplxProjectionGainLayer_forward m pself x, pself)
       \<and> CplxMultichannelGainLayer_forward_call m x
             (snd (CplxMultichannelGainLayer_forward_call m x self)) =
           CplxMultichannelGainLayer_forward_call m x self
       \<and> CplxProjectionGainLayer_forward_call m x
             (snd (CplxProjectionGainLayer_forward_call m x pself)) =
           CplxProjectionGainLayer_forward_call m x pself
       \<and> (gain self = gain other \<and> flatten self = flatten other \<longrightarrow>
            fst (CplxMultichannelGainLayer_forward_call m x self) =
            fst (CplxMultichannelGainLayer_forward_call m x other))
       \<and> (gain pself = gain pother \<and> flatten pself = flatten pother
            \<and> projection pself = projection pother \<longrightarrow>
            fst (CplxProjectionGainLayer_forward_call m x pself) =
            fst (CplxProjectionGainLayer_forward_call m x pother))"
  using multichannel_fields_only [of self other m x] projection_fields_only [of pself pother m x]
  by (simp add: multichannel_call_eq projection_call_eq)

text \<open>
  C8 at a call that returns, at a call that raises, at a projection layer, and at a gain
  layer and a projection layer that hold the same gain and flag.
\<close>

theorem forward_stateless_witness:
  "CplxMultichannelGainLayer_forward_call cplx_modulus
      (\<lparr>shape = [2], data = [1, 2]\<rparr>, \<lparr>shape = [2], data = [3, 4]\<rparr>)
      \<lparr>gain = const_gain \<lparr>shape = [2], data = [5, 7]\<rparr>, flatten = True\<rparr>
    = (Inr (\<lparr>shape = [2], data = [5, 14]\<rparr>, \<lparr>shape = [2], data = [15, 28]\<rparr>),
       \<lparr>gain = const_gain \<lparr>shape = [2], data = [5, 7]\<rparr>, flatten = True\<rparr>)
   \<and> CplxMultichannelGainLayer_forward_call cplx_modulus
      (\<lparr>shape = [2], data = [1, 2]\<rparr>, \<lparr>shape = [2], data = [3, 4]\<rparr>)
      \<lparr>gain = const_gain \<lparr>shape = [3], data = [5, 7, 9]\<rparr>, flatten = True\<rparr>
    = (Inl (ValueError ''`gain` (3,) is incompatible with the input complex tensor 2.''),
       \<lparr>gain = const_gain \<lparr>shape = [3], data = [5, 7, 9]\<rparr>, flatten = True\<rparr>)
   \<and> CplxProjectionGainLayer_forward_call cplx_modulus
      (\<lparr>shape = [2], data = [1, 2]\<rparr>, \<lparr>shape = [2], data = [3, 4]\<rparr>)
      \<lparr>gain = const_gain \<lparr>shape = [2], data = [5, 7]\<rparr>, flatten = True,
         projection = (\<lambda>z :: real tensor \<times> real tensor. z)\<rparr>
    = (Inr (\<lparr>shape = [4], data = [5, 14, 1, 2]\<rparr>, \<lparr>shape = [4], data = [15, 28, 3, 4]\<rparr>),
       \<lparr>gain = const_gain \<lparr>shape = [2], data = [5, 7]\<rparr>, flatten = True,
          projection = (\<lambda>z :: real tensor \<times> real tensor. z)\<rparr>)
   \<and> fst (CplxMultichannelGainLayer_forward_call cplx_modulus
      (\<lparr>shape = [2], data = [1, 2]\<rparr>, \<lparr>shape = [2], data = [3, 4]\<rparr>)
      \<lparr>gain = const_gain \<lparr>shape = [2], data = [5, 7]\<rparr>, flatten = True\<rparr>)
    = fst (CplxMultichannelGainLayer_forward_call cplx_modulus
      (\<lparr>shape = [2], data = [1, 2]\<rparr>, \<lparr>shape = [2], data = [3, 4]\<rparr>)
      \<lparr>gain = const_gain \<lparr>shape = [2], data = [5, 7]\<rparr>, flatten = True,
         projection = (\<lambda>z :: real tensor \<times> real tensor. z)\<rparr>)"
proof -
  let ?x = "(\<lparr>shape = [2], data = [1, 2]\<rparr>, \<lparr>shape = [2], data = [3, 4]\<rparr>) :: real tensor \<times> real tensor"
  let ?L = "\<lparr>gain = const_gain \<lparr>shape = [2], data = [5, 7]\<rparr>, flatten = True\<rparr>
              :: real CplxMultichannelGainLayer"
  let ?M = "\<lparr>gain = const_gain \<lparr>shape = [3], data = [5, 7, 9]\<rparr>, flatten = True\<rparr>
              :: real CplxMultichannelGainLayer"
  let ?P = "\<lparr>gain = const_gain \<lparr>shape = [2], data = [5, 7]\<rparr>, flatten = True,
              projection = (\<lambda>z :: real tensor \<times> real tensor. z)\<rparr>
              :: (real, real tensor \<times> real tensor) CplxProjectionGainLayer"
  have f: "CplxMultichannelGainLayer_forward cplx_modulus ?L ?x =
      Inr (\<lparr>shape = [2], data = [5, 14]\<rparr>, \<lparr>shape = [2], data = [15, 28]\<rparr>)"
    by (simp add: forward_eval)
  have g: "CplxMultichannelGainLayer_forward cplx_modulus ?M ?x =
      Inl (ValueError ''`gain` (3,) is incompatible with the input complex tensor 2.'')"
    by (simp add: forward_eval)
  have p: "CplxProjectionGainLayer_forward cplx_modulus ?P ?x =
      Inr (\<lparr>shape = [4], data = [5, 14, 1, 2]\<rparr>, \<lparr>shape = [4], data = [15, 28, 3, 4]\<rparr>)"
    by (simp add: forward_eval)
  note t = forward_stateless [where m = cplx_modulus and x = ?x and self = ?L and other = ?P
      and pself = ?P and pother = ?P]
  note u = forward_stateless [where m = cplx_modulus and x = ?x and self = ?M and other = ?M
      and pself = ?P and pother = ?P]
  have 1: "CplxMultichannelGainLayer_forward_call cplx_modulus ?x ?L =
      (Inr (\<lparr>shape = [2], data = [5, 14]\<rparr>, \<lparr>shape = [2], data = [15, 28]\<rparr>), ?L)"
    using t [THEN conjunct1] unfolding f .
  have 2: "CplxMultichannelGainLayer_forward_call cplx_modulus ?x ?M =
      (Inl (ValueError ''`gain` (3,) is incompatible with the input complex tensor 2.''), ?M)"
    using u [THEN conjunct1] unfolding g .
  have 3: "CplxProjectionGainLayer_forward_call cplx_modulus ?x ?P =
      (Inr (\<lparr>shape = [4], data = [5, 14, 1, 2]\<rparr>, \<lparr>shape = [4], data = [15, 28, 3, 4]\<rparr>), ?P)"
    using t [THEN conjunct2, THEN conjunct1] unfolding p .
  have h: "gain ?L = gain ?P \<and> flatten ?L = flatten ?P" by simp
  have 4: "fst (CplxMultichannelGainLayer_forward_call cplx_modulus ?x ?L) =
      fst (CplxMultichannelGainLayer_forward_call cplx_modulus ?x ?P)"
    using t [THEN conjunct2, THEN conjunct2, THEN conjunct2, THEN conjunct2, THEN conjunct1,
        rule_format, OF h] .
  show ?thesis by (rule conjI [OF 1 conjI [OF 2 conjI [OF 3 4]]])
qed

subsection \<open>C9\<close>

text \<open>
  C9 (amended). For an input of shape \<open>(*hs, n)\<close>, \<open>forward\<close> raises its shape-mismatch error
  exactly when \<open>prod hs * n\<close> is zero or does not divide the gain's element count. Otherwise
  the gain is reshaped silently, whatever its own leading axes are, and the call succeeds.
\<close>

theorem gain_mismatch_iff:
  fixes self :: "('a::times, 'z) CplxMultichannelGainLayer_scheme"
  assumes "shape re = hs @ [n]" and "shape im = hs @ [n]"
  shows "(CplxMultichannelGainLayer_forward m self (re, im) =
            Inl (ValueError (gain_message (drop (length hs) (shape (gain self (m (re, im))))) n)))
           = (prod_list hs * n = 0 \<or> \<not> prod_list hs * n dvd numel (gain self (m (re, im))))
       \<and> (\<not> (prod_list hs * n = 0 \<or> \<not> prod_list hs * n dvd numel (gain self (m (re, im)))) \<longrightarrow>
            (\<exists>re' im'. CplxMultichannelGainLayer_forward m self (re, im) = Inr (re', im')
               \<and> shape re' = (if flatten self
                    then hs @ [numel (gain self (m (re, im))) div (prod_list hs * n) * n]
                    else hs @ [numel (gain self (m (re, im))) div (prod_list hs * n), n])
               \<and> shape im' = shape re'))"
proof (cases "prod_list hs * n = 0 \<or> \<not> prod_list hs * n dvd numel (gain self (m (re, im)))")
  case True
  then have "prod_list hs * n = 0 \<or> numel (gain self (m (re, im))) mod (prod_list hs * n) \<noteq> 0"
    by (simp add: mod_eq_0_iff_dvd)
  from forward_fail [where m = m and self = self, OF assms(1) this] True
  show ?thesis by simp
next
  case False
  then have pos: "0 < prod_list hs * n"
    and dv: "numel (gain self (m (re, im))) mod (prod_list hs * n) = 0"
    by (simp_all add: mod_eq_0_iff_dvd)
  from forward_ok [where m = m and self = self, OF assms pos dv refl] False
  show ?thesis by (cases "flatten self") simp_all
qed

text \<open>
  The amended C9 at the example of the claim: \<open>hs = (2,)\<close>, \<open>n = 3\<close>, a gain of shape \<open>(3, 2)\<close>.
\<close>

theorem gain_mismatch_iff_witness:
  "(\<exists>re' im'. CplxMultichannelGainLayer_forward cplx_modulus
       \<lparr>gain = const_gain (ones [3, 2]), flatten = False\<rparr>
       (\<lparr>shape = [2, 3], data = [1, 2, 3, 4, 5, 6]\<rparr>, \<lparr>shape = [2, 3], data = [0, 0, 0, 0, 0, 0]\<rparr>)
       = Inr (re', im') \<and> shape re' = [2, 1, 3] \<and> shape im' = shape re')
   \<and> CplxMultichannelGainLayer_forward cplx_modulus
       \<lparr>gain = const_gain (ones [3, 2]), flatten = False\<rparr>
       (\<lparr>shape = [2, 3], data = [1, 2, 3, 4, 5, 6]\<rparr>, \<lparr>shape = [2, 3], data = [0, 0, 0, 0, 0, 0]\<rparr>)
       \<noteq> Inl (ValueError ''`gain` (2,) is incompatible with the input complex tensor 3.'')"
proof -
  let ?L = "\<lparr>gain = const_gain (ones [3, 2]), flatten = False\<rparr> :: real CplxMultichannelGainLayer"
  let ?re = "\<lparr>shape = [2, 3], data = [1, 2, 3, 4, 5, 6]\<rparr> :: real tensor"
  let ?im = "\<lparr>shape = [2, 3], data = [0, 0, 0, 0, 0, 0]\<rparr> :: real tensor"
  have g: "gain_message [2] 3 = ''`gain` (2,) is incompatible with the input complex tensor 3.''"
    by (simp add: gain_message_def str_tuple_def str_nat.simps digit_char_def)
  show ?thesis
    using gain_mismatch_iff [where re = ?re and hs = "[2]" and n = 3 and im = ?im and self = ?L
        and m = cplx_modulus]
    by (simp add: numel_def const_gain_def ones_def g)
qed

text \<open>
  C9 as stated fails on an empty batch, \<open>hs = (0, 2)\<close>, \<open>n = 3\<close>: 0 divides 0, and the call raises.
\<close>

theorem gain_mismatch_iff_counterexample:
  "shape \<lparr>shape = [0, 2, 3], data = [] :: real list\<rparr> = [0, 2] @ [3]
   \<and> prod_list [0, 2] * 3 dvd numel (gain \<lparr>gain = const_gain (ones [0, 2, 3]), flatten = False\<rparr>
        (cplx_modulus (\<lparr>shape = [0, 2, 3], data = []\<rparr>, \<lparr>shape = [0, 2, 3], data = []\<rparr>)))
   \<and> CplxMultichannelGainLayer_forward cplx_modulus
        \<lparr>gain = const_gain (ones [0, 2, 3]), flatten = False\<rparr>
        (\<lparr>shape = [0, 2, 3], data = []\<rparr>, \<lparr>shape = [0, 2, 3], data = []\<rparr>)
       = Inl (ValueError ''`gain` (3,) is incompatible with the input complex tensor 3.'')"
  by (simp add: forward_eval)

subsection \<open>C10\<close>

text \<open>
  C10. With \<open>flatten\<close>, where \<open>forward\<close> succeeds, the element at \<open>ch * n + j\<close> of row \<open>h\<close> of the
  output is the gain at \<open>(h, ch, j)\<close> times the input at \<open>(h, j)\<close>. The projection layer hands its
  projection rows of width \<open>c * n + n\<close>: first the \<open>c * n\<close> elements of the flattened row,
  channel 0 first, then the \<open>n\<close> elements of the input row.
\<close>

theorem flatten_channel_major:
  fixes self :: "('a::times, 'b, 'z) CplxProjectionGainLayer_scheme"
  assumes fl: "flatten self"
    and sre: "shape re = hs @ [n]" and sim: "shape im = hs @ [n]"
    and wre: "wf_tensor re" and wim: "wf_tensor im"
    and wg: "wf_tensor (gain self (m (re, im)))"
    and ok: "CplxMultichannelGainLayer_forward m self (re, im) = Inr (re_g, im_g)"
    and c: "c = numel (gain self (m (re, im))) div (prod_list hs * n)"
    and h: "h < prod_list hs" and ch: "ch < c" and j: "j < n"
  shows "shape re_g = hs @ [c * n] \<and> shape im_g = hs @ [c * n]
       \<and> data re_g ! (h * (c * n) + (ch * n + j)) =
           data (gain self (m (re, im))) ! ((h * c + ch) * n + j) * data re ! (h * n + j)
       \<and> data im_g ! (h * (c * n) + (ch * n + j)) =
           data (gain self (m (re, im))) ! ((h * c + ch) * n + j) * data im ! (h * n + j)
       \<and> (\<exists>cre cim. CplxProjectionGainLayer_forward m self (re, im) = Inr (projection self (cre, cim))
            \<and> shape cre = hs @ [c * n + n] \<and> shape cim = hs @ [c * n + n]
            \<and> data cre ! (h * (c * n + n) + (ch * n + j)) = data re_g ! (h * (c * n) + (ch * n + j))
            \<and> data cim ! (h * (c * n + n) + (ch * n + j)) = data im_g ! (h * (c * n) + (ch * n + j))
            \<and> data cre ! (h * (c * n + n) + (c * n + j)) = data re ! (h * n + j)
            \<and> data cim ! (h * (c * n + n) + (c * n + j)) = data im ! (h * n + j))"
proof -
  note e = forward_Inr_eq [OF sre sim ok c]
  let ?g = "gain self (m (re, im))"
  have lg: "length (data ?g) = prod_list hs * (c * n)"
    using wg e(2) by (simp add: wf_tensor_def numel_def)
  have lre: "length (data re) = prod_list hs * n" using wre sre by (simp add: wf_tensor_def)
  have lim: "length (data im) = prod_list hs * n" using wim sim by (simp add: wf_tensor_def)
  have s: "shape re_g = hs @ [c * n]" "shape im_g = hs @ [c * n]"
    using e(3,4) fl by simp_all
  have d: "data re_g = gained hs c n ?g re" "data im_g = gained hs c n ?g im"
    using e(3,4) by simp_all
  have ix: "h * (c * n) + (ch * n + j) = (h * c + ch) * n + j"
    by (simp add: add_mult_distrib mult.assoc)
  have 1: "data re_g ! (h * (c * n) + (ch * n + j)) = data ?g ! ((h * c + ch) * n + j) * data re ! (h * n + j)"
    unfolding d ix by (rule gained_entry [OF lg lre h ch j])
  have 2: "data im_g ! (h * (c * n) + (ch * n + j)) = data ?g ! ((h * c + ch) * n + j) * data im ! (h * n + j)"
    unfolding d ix by (rule gained_entry [OF lg lim h ch j])
  have l1: "length (data re_g) = prod_list hs * (c * n)"
    unfolding d using length_gained [OF lg lre] by (simp add: mult.assoc)
  have l2: "length (data im_g) = prod_list hs * (c * n)"
    unfolding d using length_gained [OF lg lim] by (simp add: mult.assoc)
  have "Suc ch \<le> c" using ch by simp
  then have "Suc ch * n \<le> c * n" by (rule mult_le_mono1)
  then have lt: "ch * n + j < c * n" using j by simp
  let ?cre = "\<lparr>shape = hs @ [c * n + n],
               data = cat_rows (prod_list hs) (c * n) n (data re_g) (data re)\<rparr>"
  let ?cim = "\<lparr>shape = hs @ [c * n + n],
               data = cat_rows (prod_list hs) (c * n) n (data im_g) (data im)\<rparr>"
  have p: "CplxProjectionGainLayer_forward m self (re, im) = Inr (projection self (?cre, ?cim))"
    by (rule projection_forward_eq [OF fl sre sim wre wim wg ok c])
  have 3: "data ?cre ! (h * (c * n + n) + (ch * n + j)) = data re_g ! (h * (c * n) + (ch * n + j))"
    using cat_rows_nth_left [OF l1 lre h lt] by simp
  have 4: "data ?cim ! (h * (c * n + n) + (ch * n + j)) = data im_g ! (h * (c * n) + (ch * n + j))"
    using cat_rows_nth_left [OF l2 lim h lt] by simp
  have 5: "data ?cre ! (h * (c * n + n) + (c * n + j)) = data re ! (h * n + j)"
    using cat_rows_nth_right [OF l1 lre h j] by simp
  have 6: "data ?cim ! (h * (c * n + n) + (c * n + j)) = data im ! (h * n + j)"
    using cat_rows_nth_right [OF l2 lim h j] by simp
  have ex: "\<exists>cre cim. CplxProjectionGainLayer_forward m self (re, im) = Inr (projection self (cre, cim))
            \<and> shape cre = hs @ [c * n + n] \<and> shape cim = hs @ [c * n + n]
            \<and> data cre ! (h * (c * n + n) + (ch * n + j)) = data re_g ! (h * (c * n) + (ch * n + j))
            \<and> data cim ! (h * (c * n + n) + (ch * n + j)) = data im_g ! (h * (c * n) + (ch * n + j))
            \<and> data cre ! (h * (c * n + n) + (c * n + j)) = data re ! (h * n + j)
            \<and> data cim ! (h * (c * n + n) + (c * n + j)) = data im ! (h * n + j)"
    apply (rule exI [of _ ?cre], rule exI [of _ ?cim])
    using p 3 4 5 6 by simp
  show ?thesis using s 1 2 ex by blast
qed

text \<open>
  C10 at \<open>hs = (2,)\<close>, \<open>n = 2\<close>, \<open>c = 2\<close>, row 1, channel 1, feature 0.
\<close>

theorem flatten_channel_major_witness:
  "CplxMultichannelGainLayer_forward cplx_modulus
     \<lparr>gain = const_gain \<lparr>shape = [2, 4], data = [2, 3, 5, 7, 11, 13, 17, 19]\<rparr>, flatten = True,
        projection = (\<lambda>z :: real tensor \<times> real tensor. z)\<rparr>
     (\<lparr>shape = [2, 2], data = [1, 2, 3, 4]\<rparr>, \<lparr>shape = [2, 2], data = [0, 1, 0, 1]\<rparr>)
   = Inr (\<lparr>shape = [2, 4], data = [2, 6, 5, 14, 33, 52, 51, 76]\<rparr>,
          \<lparr>shape = [2, 4], data = [0, 3, 0, 7, 0, 13, 0, 19]\<rparr>)
   \<and> [2, 6, 5, 14, 33, 52, 51, 76] ! (1 * (2 * 2) + (1 * 2 + 0))
       = [2, 3, 5, 7, 11, 13, 17, 19] ! ((1 * 2 + 1) * 2 + 0) * [1, 2, 3, 4 :: real] ! (1 * 2 + 0)
   \<and> CplxProjectionGainLayer_forward cplx_modulus
     \<lparr>gain = const_gain \<lparr>shape = [2, 4], data = [2, 3, 5, 7, 11, 13, 17, 19]\<rparr>, flatten = True,
        projection = (\<lambda>z :: real tensor \<times> real tensor. z)\<rparr>
     (\<lparr>shape = [2, 2], data = [1, 2, 3, 4]\<rparr>, \<lparr>shape = [2, 2], data = [0, 1, 0, 1]\<rparr>)
   = Inr (\<lparr>shape = [2, 6], data = [2, 6, 5, 14, 1, 2, 33, 52, 51, 76, 3, 4]\<rparr>,
          \<lparr>shape = [2, 6], data = [0, 3, 0, 7, 0, 1, 0, 13, 0, 19, 0, 1]\<rparr>)"
proof -
  let ?G = "\<lparr>shape = [2, 4], data = [2, 3, 5, 7, 11, 13, 17, 19]\<rparr> :: real tensor"
  let ?L = "\<lparr>gain = const_gain ?G, flatten = True, projection = (\<lambda>z. z)\<rparr>
              :: (real, real tensor \<times> real tensor) CplxProjectionGainLayer"
  let ?re = "\<lparr>shape = [2, 2], data = [1, 2, 3, 4]\<rparr> :: real tensor"
  let ?im = "\<lparr>shape = [2, 2], data = [0, 1, 0, 1]\<rparr> :: real tensor"
  let ?rg = "\<lparr>shape = [2, 4], data = [2, 6, 5, 14, 33, 52, 51, 76]\<rparr> :: real tensor"
  let ?ig = "\<lparr>shape = [2, 4], data = [0, 3, 0, 7, 0, 13, 0, 19]\<rparr> :: real tensor"
  have f: "CplxMultichannelGainLayer_forward cplx_modulus ?L (?re, ?im) = Inr (?rg, ?ig)"
    by (simp add: forward_eval)
  have p: "CplxProjectionGainLayer_forward cplx_modulus ?L (?re, ?im)
      = Inr (\<lparr>shape = [2, 6], data = [2, 6, 5, 14, 1, 2, 33, 52, 51, 76, 3, 4]\<rparr>,
             \<lparr>shape = [2, 6], data = [0, 3, 0, 7, 0, 1, 0, 13, 0, 19, 0, 1]\<rparr>)"
    by (simp add: forward_eval)
  have fl: "flatten ?L" by simp
  have sre: "shape ?re = [2] @ [2]" and sim: "shape ?im = [2] @ [2]" by simp_all
  have wre: "wf_tensor ?re" and wim: "wf_tensor ?im"
    and wg: "wf_tensor (gain ?L (cplx_modulus (?re, ?im)))"
    by (simp_all add: wf_tensor_def const_gain_def)
  have c: "(2::nat) = numel (gain ?L (cplx_modulus (?re, ?im))) div (prod_list [2] * 2)"
    by (simp add: numel_def const_gain_def)
  have h: "(1::nat) < prod_list [2]" and ch: "(1::nat) < 2" and j: "(0::nat) < 2" by simp_all
  note t = flatten_channel_major [where self = ?L and m = cplx_modulus and hs = "[2]" and n = 2
      and c = 2 and h = 1 and ch = 1 and j = 0, OF fl sre sim wre wim wg f c h ch j]
  have g: "gain ?L (cplx_modulus (?re, ?im)) = ?G" by (simp add: const_gain_def)
  have d: "[2, 6, 5, 14, 33, 52, 51, 76] ! (1 * (2 * 2) + (1 * 2 + 0))
       = [2, 3, 5, 7, 11, 13, 17, 19] ! ((1 * 2 + 1) * 2 + 0) * [1, 2, 3, 4 :: real] ! (1 * 2 + 0)"
    using t [THEN conjunct2, THEN conjunct2, THEN conjunct1] unfolding g by simp
  show ?thesis by (rule conjI [OF f conjI [OF d p]])
qed

end
